theory Spec2Isabelle
  imports Complex_Main
begin

section \<open>Python values used by the handlers\<close>

text \<open>
  The handlers of \<^verbatim>\<open>src/1.py\<close> receive JSON bodies (\<^verbatim>\<open>request.json\<close>) and JSON replies of
  the remote providers (\<^verbatim>\<open>response.json()\<close>). A JSON value is a Python \<^verbatim>\<open>None\<close>, \<^verbatim>\<open>bool\<close>,
  \<^verbatim>\<open>int\<close>, \<^verbatim>\<open>float\<close>, \<^verbatim>\<open>str\<close>, \<^verbatim>\<open>list\<close> or \<^verbatim>\<open>dict\<close>. Finite floats are represented by
  their rational value: the handlers only test them for zero and pass them on.
  Strings are ASCII texts.
\<close>

datatype json = JNull | JBool bool | JInt int | JFloat rat | JStr string
  | JArr "json list" | JObj "(string \<times> json) list"

type_synonym dict = "(string \<times> json) list"

text \<open>Python truth value of a JSON value, as used by \<^verbatim>\<open>not x\<close> and \<^verbatim>\<open>all([...])\<close>.\<close>

fun truthy :: "json \<Rightarrow> bool" where
  "truthy JNull = False"
| "truthy (JBool b) = b"
| "truthy (JInt i) = (i \<noteq> 0)"
| "truthy (JFloat r) = (r \<noteq> 0)"
| "truthy (JStr s) = (s \<noteq> [])"
| "truthy (JArr xs) = (xs \<noteq> [])"
| "truthy (JObj kvs) = (kvs \<noteq> [])"

definition py_all :: "json list \<Rightarrow> bool" where
  "py_all vs = list_all truthy vs"

text \<open>\<^verbatim>\<open>d.get(k)\<close> and \<^verbatim>\<open>d.get(k, default)\<close> on a dict; \<^verbatim>\<open>d[k]\<close> is \<^term>\<open>map_of d k\<close>, where
  \<^term>\<open>None\<close> stands for the \<^verbatim>\<open>KeyError\<close>.\<close>

definition dict_get :: "dict \<Rightarrow> string \<Rightarrow> json" where
  "dict_get d k = (case map_of d k of None \<Rightarrow> JNull | Some v \<Rightarrow> v)"

definition dict_get_default :: "dict \<Rightarrow> string \<Rightarrow> json \<Rightarrow> json" where
  "dict_get_default d k dflt = (case map_of d k of None \<Rightarrow> dflt | Some v \<Rightarrow> v)"


text \<open>The message of the \<^verbatim>\<open>AttributeError\<close> raised by \<^verbatim>\<open>v.attr\<close> on a value without it.\<close>

fun py_type_name :: "json \<Rightarrow> string" where
  "py_type_name JNull = ''NoneType''"
| "py_type_name (JBool b) = ''bool''"
| "py_type_name (JInt i) = ''int''"
| "py_type_name (JFloat r) = ''float''"
| "py_type_name (JStr s) = ''str''"
| "py_type_name (JArr xs) = ''list''"
| "py_type_name (JObj kvs) = ''dict''"

definition attribute_error :: "json \<Rightarrow> string \<Rightarrow> string" where
  "attribute_error v attr =
     [CHR 0x27] @ py_type_name v @ [CHR 0x27] @ '' object has no attribute ''
       @ [CHR 0x27] @ attr @ [CHR 0x27]"

subsection \<open>Strings\<close>

definition lower_char :: "char \<Rightarrow> char" where
  "lower_char c =
     (case map_of (zip ''ABCDEFGHIJKLMNOPQRSTUVWXYZ'' ''abcdefghijklmnopqrstuvwxyz'') c of
        Some d \<Rightarrow> d
      | None \<Rightarrow> c)"

definition lower :: "string \<Rightarrow> string" where
  "lower s = map lower_char s"

text \<open>\<^verbatim>\<open>s.rsplit(sep, 1)\<close>: the text before and after the last separator, or the
  whole string alone when it has no separator.\<close>

definition rsplit1 :: "char \<Rightarrow> string \<Rightarrow> string list" where
  "rsplit1 sep s =
     (if sep \<in> set s
      then [rev (tl (dropWhile (\<lambda>c. c \<noteq> sep) (rev s))),
            rev (takeWhile (\<lambda>c. c \<noteq> sep) (rev s))]
      else [s])"

definition digit_char :: "nat \<Rightarrow> char" where
  "digit_char n = ''0123456789'' ! (n mod 10)"

fun str_nat :: "nat \<Rightarrow> string" where
  "str_nat n = (if n < 10 then [digit_char n] else str_nat (n div 10) @ [digit_char n])"

declare str_nat.simps [simp del]

definition pad2 :: "nat \<Rightarrow> string" where
  "pad2 n = [digit_char (n div 10), digit_char n]"


subsection \<open>The clock\<close>

record datetime =
  year :: nat
  month :: nat
  day :: nat
  hour :: nat
  minute :: nat
  second :: nat

text \<open>The ranges of a Python \<^verbatim>\<open>datetime\<close>.\<close>

definition valid_datetime :: "datetime \<Rightarrow> bool" where
  "valid_datetime d =
     (1 \<le> year d \<and> year d \<le> 9999 \<and> 1 \<le> month d \<and> month d \<le> 12 \<and> 1 \<le> day d \<and> day d \<le> 31
      \<and> hour d < 24 \<and> minute d < 60 \<and> second d < 60)"

text \<open>\<^verbatim>\<open>strftime('%Y%m%d%H%M%S')\<close> and \<^verbatim>\<open>strftime('%Y%m%d_%H%M%S')\<close>; \<^verbatim>\<open>%Y\<close> prints the year
  without padding, the other fields with two digits.\<close>

definition strftime_compact :: "datetime \<Rightarrow> string" where
  "strftime_compact d =
     str_nat (year d) @ pad2 (month d) @ pad2 (day d) @ pad2 (hour d) @ pad2 (minute d)
       @ pad2 (second d)"


section \<open>Environment and store\<close>

text \<open>
  Everything a handler reads from outside the program is a field of the environment:
  the process environment variables, the clock, the replies of the remote providers
  (\<^verbatim>\<open>requests.post\<close>/\<^verbatim>\<open>requests.get\<close> followed by \<^verbatim>\<open>response.json()\<close>, which either raise
  or give a JSON value), and the library functions whose code is not part of the
  repository: \<^verbatim>\<open>int(float(amount) * 100)\<close>, \<^verbatim>\<open>str\<close> of a value inside an f-string,
  werkzeug's \<^verbatim>\<open>secure_filename\<close>, \<^verbatim>\<open>check_password_hash\<close> and \<^verbatim>\<open>generate_password_hash\<close>,
  and the storage engine's rendering of a number as text and its \<^verbatim>\<open>SUM\<close>.
\<close>

datatype http_reply = Raises string | Body json

record env =
  getenv :: "string \<Rightarrow> string option"
  clock :: datetime
  payment_reply :: http_reply
  sms_reply :: http_reply
  pesewas :: "json \<Rightarrow> string + int"
  py_str :: "json \<Rightarrow> string"
  secure_filename :: "string \<Rightarrow> string"
  password_matches :: "string \<Rightarrow> string \<Rightarrow> bool"
  generate_password_hash :: "string \<Rightarrow> string"
  sql_text :: "json \<Rightarrow> string"
  sql_sum :: "json list \<Rightarrow> json"

definition getenv_default :: "env \<Rightarrow> string \<Rightarrow> string \<Rightarrow> string" where
  "getenv_default e k dflt = (case getenv e k of None \<Rightarrow> dflt | Some v \<Rightarrow> v)"

text \<open>Truth value of \<^verbatim>\<open>os.getenv(k)\<close>: unset and empty are both false.\<close>

definition env_truthy :: "string option \<Rightarrow> bool" where
  "env_truthy v = (case v of None \<Rightarrow> False | Some s \<Rightarrow> s \<noteq> [])"

definition fstr :: "env \<Rightarrow> json \<Rightarrow> string" where
  "fstr e v = (case v of JStr s \<Rightarrow> s | _ \<Rightarrow> py_str e v)"

text \<open>The observable actions of a handler, in the order it performs them.\<close>

datatype event =
    HttpPost string
  | HttpGet string
  | FileSave string
  | SqlInsert string json
  | SqlCommit string

record admin_row =
  a_username :: string
  a_password_hash :: string
  a_role :: string
  a_email :: "string option"

text \<open>One row of \<^verbatim>\<open>photos\<close> (category, description), \<^verbatim>\<open>videos\<close> (title, description) or
  \<^verbatim>\<open>documents\<close> (title, category): the two kind-specific columns are \<open>m_first\<close> and
  \<open>m_second\<close>.\<close>

record media_row =
  m_id :: nat
  m_filename :: string
  m_first :: string
  m_second :: string
  m_uploaded_by :: string

record news_row =
  n_id :: nat
  n_title :: string
  n_content :: string
  n_image_filename :: string
  n_author :: string
  n_published :: bool

text \<open>A row of \<^verbatim>\<open>donations\<close> holds the values as the \<^verbatim>\<open>INSERT\<close> bound them; \<open>d_status\<close> is
  the column with \<^verbatim>\<open>DEFAULT 'completed'\<close>.\<close>

record donation_row =
  d_id :: nat
  d_donor_name :: json
  d_donor_email :: json
  d_donor_phone :: json
  d_amount :: json
  d_purpose :: json
  d_provider :: json
  d_reference_number :: json
  d_status :: string
  d_transaction_id :: json

record contact_row =
  c_id :: nat
  c_name :: json
  c_email :: json
  c_subject :: json
  c_message :: json
  c_read :: bool

text \<open>The store: the committed rows of each table, the files written under the upload
  folder, and the actions performed so far. The timestamp columns filled by the engine
  are not part of the rows.\<close>

record world =
  admins :: "admin_row list"
  photos :: "media_row list"
  videos :: "media_row list"
  documents :: "media_row list"
  news :: "news_row list"
  donations :: "donation_row list"
  contact_messages :: "contact_row list"
  storage :: "string set"
  trace :: "event list"

type_synonym response = "nat \<times> json"

text \<open>\<^verbatim>\<open>INTEGER PRIMARY KEY AUTOINCREMENT\<close>: one more than the largest id in use.\<close>

definition next_id :: "nat list \<Rightarrow> nat" where
  "next_id ids = Suc (fold max ids 0)"

text \<open>The values \<^verbatim>\<open>sqlite3\<close> accepts as a statement parameter: \<^verbatim>\<open>None\<close>, \<^verbatim>\<open>int\<close> (64-bit,
  \<^verbatim>\<open>bool\<close> included), \<^verbatim>\<open>float\<close> and \<^verbatim>\<open>str\<close>; a list or a dict raises.\<close>

fun bindable :: "json \<Rightarrow> bool" where
  "bindable (JArr xs) = False"
| "bindable (JObj kvs) = False"
| "bindable (JInt i) = (- (2 ^ 63) \<le> i \<and> i < 2 ^ 63)"
| "bindable v = True"

definition empty_world :: world where
  "empty_world = \<lparr>admins = [], photos = [], videos = [], documents = [], news = [],
     donations = [], contact_messages = [], storage = {}, trace = []\<rparr>"

section \<open>Database initialisation\<close>

definition default_admins :: "(string \<times> string \<times> string \<times> string) list" where
  "default_admins =
     [(''admin'', ''sda2025'', ''Administrator'', ''admin@sefwihumjibresda.org''),
      (''pastor'', ''pastor123'', ''Pastor'', ''pastor@sefwihumjibresda.org''),
      (''elder'', ''elder456'', ''Elder'', ''elder@sefwihumjibresda.org'')]"

text \<open>\<^verbatim>\<open>init_db\<close>: the tables are created if they do not exist, and each default admin is
  inserted unless its username is taken (\<^verbatim>\<open>IntegrityError\<close>, ignored).\<close>

fun insert_admins :: "env \<Rightarrow> (string \<times> string \<times> string \<times> string) list \<Rightarrow> admin_row list
    \<Rightarrow> admin_row list" where
  "insert_admins e [] rows = rows"
| "insert_admins e ((username, password, role, email) # rest) rows =
     insert_admins e rest
       (if username \<in> set (map a_username rows) then rows
        else rows @ [\<lparr>a_username = username, a_password_hash = generate_password_hash e password,
                      a_role = role, a_email = Some email\<rparr>])"

definition init_db :: "env \<Rightarrow> world \<Rightarrow> world" where
  "init_db e w = w\<lparr>admins := insert_admins e default_admins (admins w)\<rparr>"

section \<open>File type check\<close>

definition ALLOWED_IMAGES :: "string set" where
  "ALLOWED_IMAGES = {''png'', ''jpg'', ''jpeg'', ''gif'', ''webp''}"



text \<open>\<^verbatim>\<open>'.' in filename and filename.rsplit('.', 1)[1].lower() in allowed_extensions\<close>; the
  index 1 is read only when the dot is there.\<close>

definition allowed_file :: "string \<Rightarrow> string set \<Rightarrow> bool" where
  "allowed_file filename allowed_extensions =
     (if CHR ''.'' \<in> set filename
      then lower (rsplit1 CHR ''.'' filename ! 1) \<in> allowed_extensions
      else False)"

section \<open>Notification gateway\<close>

text \<open>A gateway function takes the actions performed so far and returns its result with
  the actions extended by the remote calls it made. A raised exception is \<^term>\<open>Inl\<close> of
  its message.\<close>

definition send_sms_hubtel :: "env \<Rightarrow> json \<Rightarrow> string \<Rightarrow> event list
    \<Rightarrow> (string + json) \<times> event list" where
  "send_sms_hubtel e phone_number message t =
     (let api_key = getenv e ''HUBTEL_API_KEY'';
          api_secret = getenv e ''HUBTEL_API_SECRET''
      in if \<not> env_truthy api_key \<or> \<not> env_truthy api_secret
         then (Inr (JObj [(''status'', JStr ''error''),
                         (''message'', JStr ''SMS provider not configured'')]), t)
         else let url = ''https://smsc.hubtel.com/v1/messages/send''
              in case sms_reply e of
                   Raises m \<Rightarrow> (Inl m, t @ [HttpGet url])
                 | Body j \<Rightarrow> (Inr j, t @ [HttpGet url]))"

definition send_sms_mnotify :: "env \<Rightarrow> json \<Rightarrow> string \<Rightarrow> event list
    \<Rightarrow> (string + json) \<times> event list" where
  "send_sms_mnotify e phone_number message t =
     (let api_key = getenv e ''MNOTIFY_API_KEY''
      in if \<not> env_truthy api_key
         then (Inr (JObj [(''status'', JStr ''error''),
                         (''message'', JStr ''SMS provider not configured'')]), t)
         else let url = ''https://api.mnotify.com/api/sms/quick''
              in case sms_reply e of
                   Raises m \<Rightarrow> (Inl m, t @ [HttpPost url])
                 | Body j \<Rightarrow> (Inr j, t @ [HttpPost url]))"

text \<open>\<^verbatim>\<open>send_sms\<close>: the provider's own result is returned as it is; an exception of the
  provider becomes an error result.\<close>

definition send_sms :: "env \<Rightarrow> json \<Rightarrow> string \<Rightarrow> event list \<Rightarrow> json \<times> event list" where
  "send_sms e phone_number message t =
     (let provider = getenv_default e ''SMS_PROVIDER'' ''hubtel'';
          attempt =
            (if provider = ''hubtel'' then send_sms_hubtel e phone_number message t
             else if provider = ''mnotify'' then send_sms_mnotify e phone_number message t
             else (Inr (JObj [(''status'', JStr ''success''),
                              (''message'', JStr ''SMS logged (no provider configured)'')]), t))
      in case attempt of
           (Inr result, t') \<Rightarrow> (result, t')
         | (Inl m, t') \<Rightarrow> (JObj [(''status'', JStr ''error''), (''message'', JStr m)], t'))"

section \<open>Payment gateway\<close>

definition process_hubtel_payment :: "env \<Rightarrow> json \<Rightarrow> json \<Rightarrow> json \<Rightarrow> json \<Rightarrow> json \<Rightarrow> string
    \<Rightarrow> event list \<Rightarrow> (string + dict) \<times> event list" where
  "process_hubtel_payment e provider phone_number amount purpose donor_name reference t =
     (let merchant_id = getenv e ''HUBTEL_MERCHANT_ID'';
          api_key = getenv e ''HUBTEL_PAYMENT_API_KEY''
      in if \<not> (env_truthy merchant_id \<and> env_truthy api_key)
         then (Inr [(''status'', JStr ''error''),
                    (''message'', JStr ''Payment gateway not configured'')], t)
         else let url = ''https://api.hubtel.com/v1/merchantaccount/merchants/''
                        @ (case merchant_id of Some m \<Rightarrow> m | None \<Rightarrow> ''None'')
                        @ ''/receive/mobilemoney''
              in case provider of
                   JStr p \<Rightarrow>
                     (case payment_reply e of
                        Raises m \<Rightarrow> (Inl m, t @ [HttpPost url])
                      | Body (JObj result) \<Rightarrow>
                          (Inr [(''status'',
                                   JStr (if dict_get result ''ResponseCode'' = JStr ''0000''
                                         then ''success'' else ''error'')),
                                (''reference'', JStr reference),
                                (''transaction_id'', dict_get result ''TransactionId''),
                                (''message'',
                                   dict_get_default result ''Message'' (JStr ''Payment processed''))],
                           t @ [HttpPost url])
                      | Body j \<Rightarrow> (Inl (attribute_error j ''get''), t @ [HttpPost url]))
                 | _ \<Rightarrow> (Inl (attribute_error provider ''lower''), t))"

definition process_paystack_payment :: "env \<Rightarrow> json \<Rightarrow> json \<Rightarrow> json \<Rightarrow> json \<Rightarrow> json \<Rightarrow> string
    \<Rightarrow> event list \<Rightarrow> (string + dict) \<times> event list" where
  "process_paystack_payment e provider phone_number amount purpose donor_name reference t =
     (let secret_key = getenv e ''PAYSTACK_SECRET_KEY''
      in if \<not> env_truthy secret_key
         then (Inr [(''status'', JStr ''error''),
                    (''message'', JStr ''Payment gateway not configured'')], t)
         else let url = ''https://api.paystack.co/charge''
              in case pesewas e amount of
                   Inl m \<Rightarrow> (Inl m, t)
                 | Inr amount_in_pesewas \<Rightarrow>
                     (case provider of
                        JStr p \<Rightarrow>
                          (case payment_reply e of
                             Raises m \<Rightarrow> (Inl m, t @ [HttpPost url])
                           | Body (JObj result) \<Rightarrow>
                               (case dict_get_default result ''data'' (JObj []) of
                                  JObj data \<Rightarrow>
                                    (Inr [(''status'',
                                             JStr (if truthy (dict_get result ''status'')
                                                   then ''success'' else ''error'')),
                                          (''reference'', JStr reference),
                                          (''transaction_id'', dict_get data ''id''),
                                          (''message'',
                                             dict_get_default result ''message''
                                               (JStr ''Payment processed''))],
                                     t @ [HttpPost url])
                                | d \<Rightarrow> (Inl (attribute_error d ''get''), t @ [HttpPost url]))
                           | Body j \<Rightarrow> (Inl (attribute_error j ''get''), t @ [HttpPost url]))
                      | _ \<Rightarrow> (Inl (attribute_error provider ''lower''), t)))"

text \<open>\<^verbatim>\<open>process_mobile_money\<close>: the reference is made from the clock before the gateway is
  chosen; any other gateway name is the simulation mode; an exception of a gateway becomes
  an error result of two keys.\<close>

definition make_reference :: "env \<Rightarrow> string" where
  "make_reference e = ''SDA'' @ strftime_compact (clock e)"

definition process_mobile_money :: "env \<Rightarrow> json \<Rightarrow> json \<Rightarrow> json \<Rightarrow> json \<Rightarrow> json
    \<Rightarrow> event list \<Rightarrow> dict \<times> event list" where
  "process_mobile_money e provider phone_number amount purpose donor_name t =
     (let gateway = getenv_default e ''PAYMENT_GATEWAY'' ''hubtel'';
          reference = make_reference e;
          attempt =
            (if gateway = ''hubtel''
             then process_hubtel_payment e provider phone_number amount purpose donor_name
                    reference t
             else if gateway = ''paystack''
             then process_paystack_payment e provider phone_number amount purpose donor_name
                    reference t
             else (Inr [(''status'', JStr ''success''),
                        (''reference'', JStr reference),
                        (''message'', JStr ''Payment processed (simulation mode)''),
                        (''transaction_id'', JStr (''TEST_'' @ reference))], t))
      in case attempt of
           (Inr result, t') \<Rightarrow> (result, t')
         | (Inl m, t') \<Rightarrow> ([(''status'', JStr ''error''), (''message'', JStr m)], t'))"

section \<open>Donation endpoint\<close>

text \<open>The \<^verbatim>\<open>INSERT INTO donations\<close> with its eight parameters. It raises when a parameter
  cannot be bound, when a \<^verbatim>\<open>NOT NULL\<close> column would be null, or when the reference number
  is already stored (\<^verbatim>\<open>UNIQUE\<close>). The status column is not among the parameters and takes
  its default.\<close>

definition insert_donation :: "json \<Rightarrow> json \<Rightarrow> json \<Rightarrow> json \<Rightarrow> json \<Rightarrow> json \<Rightarrow> json \<Rightarrow> json
    \<Rightarrow> donation_row list \<Rightarrow> string + donation_row" where
  "insert_donation donor_name donor_email donor_phone amount purpose provider reference
       transaction_id rows =
     (if \<not> list_all bindable [donor_name, donor_email, donor_phone, amount, purpose, provider,
                              reference, transaction_id]
      then Inl ''Error binding parameter''
      else if JNull \<in> set [donor_name, donor_phone, amount, purpose, provider, reference]
      then Inl ''NOT NULL constraint failed''
      else if reference \<in> set (map d_reference_number rows)
      then Inl ''UNIQUE constraint failed: donations.reference_number''
      else Inr \<lparr>d_id = next_id (map d_id rows), d_donor_name = donor_name,
                d_donor_email = donor_email, d_donor_phone = donor_phone, d_amount = amount,
                d_purpose = purpose, d_provider = provider, d_reference_number = reference,
                d_status = ''completed'', d_transaction_id = transaction_id\<rparr>)"

definition sms_text :: "env \<Rightarrow> json \<Rightarrow> json \<Rightarrow> json \<Rightarrow> json \<Rightarrow> string" where
  "sms_text e donor_name amount purpose reference =
     ''Thank you '' @ fstr e donor_name @ '' for your donation of GHS '' @ fstr e amount
       @ '' to Sefwi Humjibre SDA Church for '' @ fstr e purpose
       @ ''. Reference: '' @ fstr e reference @ ''. May God bless you abundantly!''"

definition server_error :: "string \<Rightarrow> response" where
  "server_error msg = (500, JObj [(''error'', JStr msg)])"

text \<open>\<^verbatim>\<open>process_donation\<close>. Every exception inside the \<^verbatim>\<open>try\<close> gives the 500 response, with
  the store as it is at that point: a row committed before the exception stays.\<close>

definition process_donation :: "env \<Rightarrow> dict \<Rightarrow> world \<Rightarrow> response \<times> world" where
  "process_donation e data w =
     (let donor_name = dict_get data ''donor_name'';
          donor_email = dict_get data ''donor_email'';
          donor_phone = dict_get data ''donor_phone'';
          amount = dict_get data ''amount'';
          purpose = dict_get data ''purpose'';
          provider = dict_get data ''provider''
      in if \<not> py_all [donor_name, donor_phone, amount, purpose, provider]
         then ((400, JObj [(''error'', JStr ''Missing required fields'')]), w)
         else
           case process_mobile_money e provider donor_phone amount purpose donor_name (trace w) of
             (payment_result, t1) \<Rightarrow>
               (case map_of payment_result ''status'' of
                  None \<Rightarrow> (server_error ''Failed to process donation'', w\<lparr>trace := t1\<rparr>)
                | Some status \<Rightarrow>
                    if status = JStr ''success''
                    then
                      (case map_of payment_result ''reference'' of
                         None \<Rightarrow> (server_error ''Failed to process donation'', w\<lparr>trace := t1\<rparr>)
                       | Some reference \<Rightarrow>
                           let transaction_id =
                                 dict_get_default payment_result ''transaction_id'' (JStr [])
                           in case insert_donation donor_name donor_email donor_phone amount
                                     purpose provider reference transaction_id (donations w) of
                                Inl m \<Rightarrow>
                                  (server_error ''Failed to process donation'', w\<lparr>trace := t1\<rparr>)
                              | Inr row \<Rightarrow>
                                  let w1 = w\<lparr>donations := donations w @ [row],
                                             trace := t1 @ [SqlInsert ''donations'' reference,
                                                            SqlCommit ''donations'']\<rparr>;
                                      sms_message = sms_text e donor_name amount purpose reference
                                  in case send_sms e donor_phone sms_message (trace w1) of
                                       (sms_result, t2) \<Rightarrow>
                                         (case sms_result of
                                            JObj sms \<Rightarrow>
                                              ((200, JObj [(''success'', JBool True),
                                                     (''reference'', reference),
                                                     (''transaction_id'', transaction_id),
                                                     (''message'',
                                                        JStr ''Donation processed successfully''),
                                                     (''sms_sent'',
                                                        JBool (dict_get sms ''status''
                                                               = JStr ''success''))]),
                                               w1\<lparr>trace := t2\<rparr>)
                                          | _ \<Rightarrow>
                                              (server_error ''Failed to process donation'',
                                               w1\<lparr>trace := t2\<rparr>)))
                    else
                      (case map_of payment_result ''message'' of
                         None \<Rightarrow> (server_error ''Failed to process donation'', w\<lparr>trace := t1\<rparr>)
                       | Some message \<Rightarrow>
                           ((400, JObj [(''success'', JBool False), (''error'', message)]),
                            w\<lparr>trace := t1\<rparr>))))"




section \<open>Login endpoint\<close>

text \<open>\<^verbatim>\<open>SELECT ... FROM admins WHERE username = ?\<close> followed by \<^verbatim>\<open>fetchone()\<close>. A list or
  a dict cannot be bound; a number is compared with the text column through its text.\<close>

definition select_admin :: "env \<Rightarrow> json \<Rightarrow> admin_row list \<Rightarrow> string + admin_row option" where
  "select_admin e username rows =
     (if \<not> bindable username then Inl ''Error binding parameter''
      else case username of
             JStr s \<Rightarrow> Inr (find (\<lambda>r. a_username r = s) rows)
           | JNull \<Rightarrow> Inr None
           | v \<Rightarrow> Inr (find (\<lambda>r. a_username r = sql_text e v) rows))"

text \<open>\<^verbatim>\<open>check_password_hash(pwhash, password)\<close> encodes the password, which only a string
  has a method for.\<close>

definition check_password_hash :: "env \<Rightarrow> string \<Rightarrow> json \<Rightarrow> string + bool" where
  "check_password_hash e pwhash password =
     (case password of
        JStr p \<Rightarrow> Inr (password_matches e pwhash p)
      | v \<Rightarrow> Inl (attribute_error v ''encode''))"

definition json_of_option :: "string option \<Rightarrow> json" where
  "json_of_option v = (case v of None \<Rightarrow> JNull | Some s \<Rightarrow> JStr s)"

definition invalid_credentials :: response where
  "invalid_credentials =
     (401, JObj [(''success'', JBool False), (''message'', JStr ''Invalid credentials'')])"

definition admin_login :: "env \<Rightarrow> dict \<Rightarrow> world \<Rightarrow> response \<times> world" where
  "admin_login e data w =
     (let username = dict_get data ''username'';
          password = dict_get data ''password''
      in if \<not> truthy username \<or> \<not> truthy password
         then ((400, JObj [(''success'', JBool False), (''message'', JStr ''Missing credentials'')]),
               w)
         else
           case select_admin e username (admins w) of
             Inl m \<Rightarrow> ((500, JObj [(''success'', JBool False), (''message'', JStr ''Server error'')]),
                       w)
           | Inr None \<Rightarrow> (invalid_credentials, w)
           | Inr (Some result) \<Rightarrow>
               (case check_password_hash e (a_password_hash result) password of
                  Inl m \<Rightarrow>
                    ((500, JObj [(''success'', JBool False), (''message'', JStr ''Server error'')]),
                     w)
                | Inr True \<Rightarrow>
                    ((200, JObj [(''success'', JBool True), (''username'', username),
                                 (''role'', JStr (a_role result)),
                                 (''email'', json_of_option (a_email result))]),
                     w)
                | Inr False \<Rightarrow> (invalid_credentials, w)))"

section \<open>Upload endpoints\<close>

text \<open>
  The three upload handlers are the same code for three tables. An uploaded file comes
  with what the environment does while it is processed: the clock reading for its stored
  name, and whether \<^verbatim>\<open>file.save\<close> succeeds or raises. A save that raises leaves no file.
\<close>

datatype kind = Photos | Videos | Documents






fun table_of :: "kind \<Rightarrow> world \<Rightarrow> media_row list" where
  "table_of Photos w = photos w"
| "table_of Videos w = videos w"
| "table_of Documents w = documents w"

fun table_append :: "kind \<Rightarrow> media_row list \<Rightarrow> world \<Rightarrow> world" where
  "table_append Photos rows w = w\<lparr>photos := photos w @ rows\<rparr>"
| "table_append Videos rows w = w\<lparr>videos := videos w @ rows\<rparr>"
| "table_append Documents rows w = w\<lparr>documents := documents w @ rows\<rparr>"











section \<open>News and contact endpoints\<close>




section \<open>The service as a whole\<close>





section \<open>Notions used to state the properties\<close>

text \<open>The check of the required fields, the payment result and the \<^verbatim>\<open>INSERT\<close> of one call
  of \<^const>\<open>process_donation\<close>, named so that statements about the handler can refer to
  them.\<close>

definition required_present :: "dict \<Rightarrow> bool" where
  "required_present data =
     py_all [dict_get data ''donor_name'', dict_get data ''donor_phone'', dict_get data ''amount'',
             dict_get data ''purpose'', dict_get data ''provider'']"

definition payment_of :: "env \<Rightarrow> dict \<Rightarrow> world \<Rightarrow> dict" where
  "payment_of e data w =
     fst (process_mobile_money e (dict_get data ''provider'') (dict_get data ''donor_phone'')
            (dict_get data ''amount'') (dict_get data ''purpose'') (dict_get data ''donor_name'')
            (trace w))"

definition donation_insert :: "env \<Rightarrow> dict \<Rightarrow> world \<Rightarrow> string + donation_row" where
  "donation_insert e data w =
     insert_donation (dict_get data ''donor_name'') (dict_get data ''donor_email'')
       (dict_get data ''donor_phone'') (dict_get data ''amount'') (dict_get data ''purpose'')
       (dict_get data ''provider'') (JStr (make_reference e))
       (dict_get_default (payment_of e data w) ''transaction_id'' (JStr []))
       (donations w)"

text \<open>The result of \<^const>\<open>send_sms\<close> as \<^const>\<open>process_donation\<close> calls it after the commit.\<close>

definition sms_of :: "env \<Rightarrow> dict \<Rightarrow> world \<Rightarrow> json" where
  "sms_of e data w =
     fst (send_sms e (dict_get data ''donor_phone'')
            (sms_text e (dict_get data ''donor_name'') (dict_get data ''amount'')
               (dict_get data ''purpose'') (JStr (make_reference e)))
            (snd (process_mobile_money e (dict_get data ''provider'')
                    (dict_get data ''donor_phone'') (dict_get data ''amount'')
                    (dict_get data ''purpose'') (dict_get data ''donor_name'') (trace w))
             @ [SqlInsert ''donations'' (JStr (make_reference e)), SqlCommit ''donations'']))"







section \<open>Example inputs\<close>

text \<open>An environment with nothing configured and every remote call refused, at
  2025-03-15 09:30:07; the library functions are simple stand-ins.\<close>

definition env0 :: env where
  "env0 = \<lparr>getenv = (\<lambda>k. None),
           clock = \<lparr>year = 2025, month = 3, day = 15, hour = 9, minute = 30, second = 7\<rparr>,
           payment_reply = Raises ''connection refused'',
           sms_reply = Raises ''connection refused'',
           pesewas = (\<lambda>v. case v of JInt i \<Rightarrow> Inr (i * 100) | _ \<Rightarrow> Inl ''could not convert''),
           py_str = (\<lambda>v. case v of JInt i \<Rightarrow> str_nat (nat i) | _ \<Rightarrow> ''?''),
           secure_filename = (\<lambda>s. s),
           password_matches = (\<lambda>h p. h = ''hash:'' @ p),
           generate_password_hash = (\<lambda>p. ''hash:'' @ p),
           sql_text = (\<lambda>v. ''?''),
           sql_sum = (\<lambda>vs. JInt (sum_list (map (\<lambda>v. case v of JInt i \<Rightarrow> i | _ \<Rightarrow> 0) vs)))\<rparr>"

text \<open>The simulation mode: a payment gateway name other than the two providers, and the
  SMS written to the log.\<close>

definition env_sim :: env where
  "env_sim = env0\<lparr>getenv := map_of [(''PAYMENT_GATEWAY'', ''simulation''),
                                     (''SMS_PROVIDER'', ''console'')]\<rparr>"

definition ama :: dict where
  "ama = [(''donor_name'', JStr ''Ama''), (''donor_phone'', JStr ''0551234567''),
          (''amount'', JInt 50), (''purpose'', JStr ''tithe''), (''provider'', JStr ''mtn'')]"

text \<open>The same request with an amount of zero, and without an amount.\<close>

definition ama_zero :: dict where
  "ama_zero = [(''donor_name'', JStr ''Ama''), (''donor_phone'', JStr ''0551234567''),
               (''amount'', JInt 0), (''purpose'', JStr ''tithe''), (''provider'', JStr ''mtn'')]"

definition ama_absent :: dict where
  "ama_absent = [(''donor_name'', JStr ''Ama''), (''donor_phone'', JStr ''0551234567''),
                 (''purpose'', JStr ''tithe''), (''provider'', JStr ''mtn'')]"

text \<open>A second donor, and the store after Ama's donation in simulation mode.\<close>

definition kofi :: dict where
  "kofi = [(''donor_name'', JStr ''Kofi''), (''donor_email'', JStr ''kofi@example.org''),
           (''donor_phone'', JStr ''0249876543''), (''amount'', JInt 20),
           (''purpose'', JStr ''offering''), (''provider'', JStr ''vodafone'')]"


text \<open>The SMS sent through Hubtel, whose reply is a JSON array.\<close>

definition env_sms_array :: env where
  "env_sms_array =
     env0\<lparr>getenv := map_of [(''PAYMENT_GATEWAY'', ''simulation''), (''SMS_PROVIDER'', ''hubtel''),
                             (''HUBTEL_API_KEY'', ''key''), (''HUBTEL_API_SECRET'', ''secret'')],
          sms_reply := Body (JArr [JStr ''queued''])\<rparr>"

text \<open>The store after \<^const>\<open>init_db\<close>, and three login attempts: an unknown user, the
  administrator with a wrong password, and the administrator with the right one.\<close>

definition seeded :: world where
  "seeded = init_db env0 empty_world"

definition login_unknown :: dict where
  "login_unknown = [(''username'', JStr ''deacon''), (''password'', JStr ''sda2025'')]"

definition login_wrong :: dict where
  "login_wrong = [(''username'', JStr ''admin''), (''password'', JStr ''letmein'')]"

definition login_right :: dict where
  "login_right = [(''username'', JStr ''admin''), (''password'', JStr ''sda2025'')]"








section \<open>Properties\<close>

subsection \<open>Strings and timestamps\<close>

lemma rsplit1_append:
  assumes "CHR ''.'' \<notin> set ext"
  shows "rsplit1 CHR ''.'' (stem @ ''.'' @ ext) = [stem, ext]"
proof -
  let ?p = "\<lambda>c. c \<noteq> CHR ''.''"
  from assms have all: "\<And>x. x \<in> set (rev ext) \<Longrightarrow> ?p x" by auto
  have t: "takeWhile ?p (rev ext @ CHR ''.'' # rev stem) = rev ext"
    using takeWhile_append2[of "rev ext" ?p "CHR ''.'' # rev stem", OF all] by simp
  have d: "dropWhile ?p (rev ext @ CHR ''.'' # rev stem) = CHR ''.'' # rev stem"
    using dropWhile_append2[of "rev ext" ?p "CHR ''.'' # rev stem", OF all] by simp
  show ?thesis by (simp add: rsplit1_def t d)
qed

lemma rsplit1_join:
  assumes "CHR ''.'' \<in> set s"
  shows "\<exists>stem ext. rsplit1 CHR ''.'' s = [stem, ext] \<and> s = stem @ ''.'' @ ext
           \<and> CHR ''.'' \<notin> set ext"
proof -
  let ?p = "\<lambda>c. c \<noteq> CHR ''.''"
  let ?t = "takeWhile ?p (rev s)" and ?d = "dropWhile ?p (rev s)"
  from assms have ne: "?d \<noteq> []" by (simp add: dropWhile_eq_Nil_conv)
  then have "hd ?d = CHR ''.''" using hd_dropWhile[of ?p "rev s"] by simp
  with ne have d: "?d = CHR ''.'' # tl ?d" by (cases ?d) auto
  have "rev s = ?t @ ?d" by simp
  then have "rev s = ?t @ CHR ''.'' # tl ?d" using d by simp
  then have "rev (rev s) = rev (?t @ CHR ''.'' # tl ?d)" by (rule arg_cong)
  then have "s = rev (tl ?d) @ ''.'' @ rev ?t" by simp
  moreover have "CHR ''.'' \<notin> set (rev ?t)" using set_takeWhileD by fastforce
  ultimately show ?thesis using assms by (auto simp: rsplit1_def)
qed










subsection \<open>The file type check\<close>

text \<open>
  Claim C8. The extension check ignores case and rejects a name without a recognised
  suffix: \<^const>\<open>allowed_file\<close> accepts a file name against an allow-list exactly when
  the name contains a dot and the lower-cased text after its last dot is in the list.
  So \<^verbatim>\<open>photo\<close>, which has no extension, is rejected, and \<^verbatim>\<open>photo.PNG\<close> is accepted for
  the image allow-list.
\<close>

theorem allowed_file_spec:
  "(allowed_file filename exts \<longleftrightarrow>
      (\<exists>stem ext. filename = stem @ ''.'' @ ext \<and> CHR ''.'' \<notin> set ext \<and> lower ext \<in> exts))
   \<and> \<not> allowed_file ''photo'' ALLOWED_IMAGES
   \<and> allowed_file ''photo.PNG'' ALLOWED_IMAGES"
proof (intro conjI iffI)
  assume a: "allowed_file filename exts"
  then have dot: "CHR ''.'' \<in> set filename"
    by (simp add: allowed_file_def split: if_splits)
  from rsplit1_join[OF dot] obtain stem ext where
    r: "rsplit1 CHR ''.'' filename = [stem, ext]" "filename = stem @ ''.'' @ ext"
       "CHR ''.'' \<notin> set ext"
    by blast
  with a dot have "lower ext \<in> exts" by (simp add: allowed_file_def)
  with r show "\<exists>stem ext. filename = stem @ ''.'' @ ext \<and> CHR ''.'' \<notin> set ext \<and> lower ext \<in> exts"
    by blast
next
  assume "\<exists>stem ext. filename = stem @ ''.'' @ ext \<and> CHR ''.'' \<notin> set ext \<and> lower ext \<in> exts"
  then obtain stem ext where
    r: "filename = stem @ ''.'' @ ext" "CHR ''.'' \<notin> set ext" "lower ext \<in> exts"
    by blast
  then show "allowed_file filename exts"
    using rsplit1_append[OF r(2), of stem] by (simp add: allowed_file_def)
next
  show "\<not> allowed_file ''photo'' ALLOWED_IMAGES" by (simp add: allowed_file_def)
next
  show "allowed_file ''photo.PNG'' ALLOWED_IMAGES"
    by (simp add: allowed_file_def rsplit1_def lower_def lower_char_def ALLOWED_IMAGES_def)
qed

theorem allowed_file_spec_witness:
  "allowed_file ''Choir.Sabbath.JPeG'' ALLOWED_IMAGES
   \<and> (\<exists>stem ext. ''Choir.Sabbath.JPeG'' = stem @ ''.'' @ ext \<and> CHR ''.'' \<notin> set ext
        \<and> lower ext \<in> ALLOWED_IMAGES)"
proof -
  have a: "allowed_file ''Choir.Sabbath.JPeG'' ALLOWED_IMAGES"
    by (simp add: allowed_file_def rsplit1_def lower_def lower_char_def ALLOWED_IMAGES_def)
  from a allowed_file_spec[of "''Choir.Sabbath.JPeG''" ALLOWED_IMAGES] show ?thesis by blast
qed

subsection \<open>Evaluation of the donation flow on the examples\<close>

lemmas donation_eval =
  process_donation_def process_mobile_money_def process_hubtel_payment_def
  process_paystack_payment_def send_sms_def send_sms_hubtel_def send_sms_mnotify_def
  getenv_default_def env_truthy_def make_reference_def strftime_compact_def pad2_def
  digit_char_def str_nat.simps insert_donation_def next_id_def sms_text_def fstr_def
  dict_get_def dict_get_default_def py_all_def server_error_def Let_def
  required_present_def payment_of_def donation_insert_def
  env0_def env_sim_def env_sms_array_def ama_def ama_zero_def ama_absent_def kofi_def
  empty_world_def


subsection \<open>The payment gateway\<close>

lemma falsy_values:
  "\<not> truthy v \<longleftrightarrow> v \<in> {JNull, JBool False, JInt 0, JFloat 0, JStr [], JArr [], JObj []}"
  by (cases v) auto








subsection \<open>The donation endpoint\<close>

text \<open>
  Claim C10. A donation request in which a required field is falsy (zero, an empty string,
  absent, or any other falsy value) is answered with the 400 response
  \<^verbatim>\<open>Missing required fields\<close> and leaves the whole store, the record of remote calls
  included, as it was: no gateway is called. The response does not depend on which field
  is falsy or why, so an amount of 0 cannot be told from a missing amount.
\<close>

theorem donation_missing_field_rejected:
  assumes "k \<in> set [''donor_name'', ''donor_phone'', ''amount'', ''purpose'', ''provider'']"
    and "\<not> truthy (dict_get data k)"
  shows "process_donation e data w
           = ((400, JObj [(''error'', JStr ''Missing required fields'')]), w)"
proof -
  from assms have "\<not> py_all [dict_get data ''donor_name'', dict_get data ''donor_phone'',
      dict_get data ''amount'', dict_get data ''purpose'', dict_get data ''provider'']"
    by (auto simp: py_all_def)
  then show ?thesis by (simp add: process_donation_def Let_def)
qed

theorem donation_missing_field_rejected_witness:
  "process_donation env_sim ama_zero empty_world
     = ((400, JObj [(''error'', JStr ''Missing required fields'')]), empty_world)
   \<and> process_donation env_sim ama_absent empty_world
     = process_donation env_sim ama_zero empty_world"
proof -
  have k: "''amount'' \<in> set [''donor_name'', ''donor_phone'', ''amount'', ''purpose'',
                              ''provider'']"
    by simp
  have z: "\<not> truthy (dict_get ama_zero ''amount'')" by (simp add: ama_zero_def dict_get_def)
  have a: "\<not> truthy (dict_get ama_absent ''amount'')"
    by (simp add: ama_absent_def dict_get_def)
  show ?thesis
    using donation_missing_field_rejected[OF k z, of env_sim empty_world]
      donation_missing_field_rejected[OF k a, of env_sim empty_world] by simp
qed







lemma truthy_not_null: "truthy v \<Longrightarrow> v \<noteq> JNull"
  by auto




text \<open>
  Claim C5. After a successful payment and a persisted row, the outcome of the SMS must not
  change the response. The handler breaks this when the SMS provider replies with JSON
  that is not an object: \<^const>\<open>send_sms\<close> passes the reply on as it is, reading its
  status raises inside the \<^verbatim>\<open>try\<close> of the handler, and the response is the 500 although
  the payment succeeded and the row stays committed.
\<close>

theorem sms_reply_not_object_fails_donation:
  "map_of (payment_of env_sms_array ama empty_world) ''status'' = Some (JStr ''success'')
   \<and> sms_of env_sms_array ama empty_world = JArr [JStr ''queued'']
   \<and> fst (process_donation env_sms_array ama empty_world)
       = (500, JObj [(''error'', JStr ''Failed to process donation'')])
   \<and> map d_reference_number (donations (snd (process_donation env_sms_array ama empty_world)))
       = [JStr ''SDA20250315093007'']"
  by (simp add: sms_of_def donation_eval)

subsection \<open>The login endpoint\<close>

lemmas login_eval =
  admin_login_def select_admin_def check_password_hash_def invalid_credentials_def
  json_of_option_def dict_get_def seeded_def init_db_def default_admins_def empty_world_def
  env0_def login_unknown_def login_wrong_def login_right_def Let_def

lemma seeded_admins:
  "map a_username (admins seeded) = [''admin'', ''pastor'', ''elder'']"
  by (simp add: login_eval)



subsection \<open>The status of donations\<close>














subsection \<open>The upload endpoints\<close>



lemma table_of_append: "table_of k (table_append k rows w) = table_of k w @ rows"
  by (cases k) simp_all













end
